theory Spec2Isabelle
  imports Main
begin

section \<open>The configuration\<close>

text \<open>
  Modelled from the spec: \<^verbatim>\<open>config/config.model.ts\<close>, which declares the type
  \<^verbatim>\<open>Config\<close>, is not among the sources. The spec gives a Config the sections
  \<^verbatim>\<open>printer\<close>, \<^verbatim>\<open>plugins\<close> and \<^verbatim>\<open>octodash\<close>; \<^verbatim>\<open>plugins\<close> holds named plugin
  objects such as \<^verbatim>\<open>tpLinkSmartPlug\<close> and \<^verbatim>\<open>psuControl\<close>. The three sections are
  record fields; every property that the patches of \<^verbatim>\<open>app.service.ts\<close> read, write or
  delete is an \<open>option\<close>, with \<open>None\<close> for a property that the object does not
  have (JavaScript reads it as \<^verbatim>\<open>undefined\<close>). A configuration reaches the patches
  because it failed validation, so a property that the schema requires can be absent.
\<close>

record tpLinkSmartPlugPlugin =
  enabled :: bool
  smartPlugIP :: string

record psuControlPlugin =
  turnOnPSUWhenExitingSleep :: "bool option"

record printerConfig =
  zBabystepGCode :: "string option"

record pluginsConfig =
  tpLinkSmartPlug :: "tpLinkSmartPlugPlugin option"
  psuControl :: "psuControlPlugin option"

record octodashConfig =
  previewProgressCircle :: "bool option"
  turnOnPrinterWhenExitingSleep :: "bool option"

record config =
  printer :: printerConfig
  plugins :: pluginsConfig
  octodash :: octodashConfig

text \<open>The Config whose three sections are empty objects.\<close>

definition emptyConfig :: config where
  "emptyConfig =
     \<lparr>printer = \<lparr>zBabystepGCode = None\<rparr>,
      plugins = \<lparr>tpLinkSmartPlug = None, psuControl = None\<rparr>,
      octodash = \<lparr>previewProgressCircle = None, turnOnPrinterWhenExitingSleep = None\<rparr>\<rparr>"

section \<open>The registry \<^verbatim>\<open>updateError\<close>\<close>

text \<open>
  A patch mutates the Config it is given. Reading a property of \<^verbatim>\<open>undefined\<close> raises
  a \<^verbatim>\<open>TypeError\<close>; that is the only exception the patches can raise, and a patch that
  raises has not changed the Config.
\<close>

datatype error = TypeError

type_synonym patch = "config \<Rightarrow> error + config"

text \<open>The four keys of the object literal (lines 33 to 38).\<close>

definition zBabystepGCodeError :: string where
  "zBabystepGCodeError =
     ''.printer should have required property 'zBabystepGCode'' @ [CHR 0x27]"

definition tpLinkSmartPlugError :: string where
  "tpLinkSmartPlugError =
     ''.plugins should have required property 'tpLinkSmartPlug'' @ [CHR 0x27]"

definition previewProgressCircleError :: string where
  "previewProgressCircleError =
     ''.octodash should have required property 'previewProgressCircle'' @ [CHR 0x27]"

definition turnOnPrinterWhenExitingSleepError :: string where
  "turnOnPrinterWhenExitingSleepError =
     ''.octodash should have required property 'turnOnPrinterWhenExitingSleep'' @ [CHR 0x27]"

text \<open>
  \<^verbatim>\<open>config => (config.printer.zBabystepGCode = 'M290 Z')\<close>
\<close>

definition patchZBabystepGCode :: patch where
  "patchZBabystepGCode config =
     Inr (config\<lparr>printer := (printer config)\<lparr>zBabystepGCode := Some ''M290 Z''\<rparr>\<rparr>)"

text \<open>
  \<^verbatim>\<open>config => (config.plugins.tpLinkSmartPlug = { enabled: true, smartPlugIP: '127.0.0.1' })\<close>
\<close>

definition patchTpLinkSmartPlug :: patch where
  "patchTpLinkSmartPlug config =
     Inr (config\<lparr>plugins := (plugins config)
       \<lparr>tpLinkSmartPlug := Some \<lparr>enabled = True, smartPlugIP = ''127.0.0.1''\<rparr>\<rparr>\<rparr>)"

text \<open>
  \<^verbatim>\<open>config => (config.octodash.previewProgressCircle = false)\<close>
\<close>

definition patchPreviewProgressCircle :: patch where
  "patchPreviewProgressCircle config =
     Inr (config\<lparr>octodash := (octodash config)\<lparr>previewProgressCircle := Some False\<rparr>\<rparr>)"

text \<open>
  Lines 38 to 41:
  \<^verbatim>\<open>
  config.octodash.turnOnPrinterWhenExitingSleep =
    config.plugins.psuControl.turnOnPSUWhenExitingSleep ?? false;
  delete config.plugins.psuControl.turnOnPSUWhenExitingSleep;
  \<close>
  When \<^verbatim>\<open>config.plugins.psuControl\<close> is \<^verbatim>\<open>undefined\<close>, the read on the right of the
  assignment raises before anything is written.
\<close>

definition nullish :: "'a option \<Rightarrow> 'a \<Rightarrow> 'a" where
  "nullish v d = (case v of None \<Rightarrow> d | Some x \<Rightarrow> x)"

definition patchTurnOnPrinterWhenExitingSleep :: patch where
  "patchTurnOnPrinterWhenExitingSleep config =
     (case psuControl (plugins config) of
        None \<Rightarrow> Inl TypeError
      | Some psu \<Rightarrow>
          Inr (config
            \<lparr>octodash := (octodash config)
               \<lparr>turnOnPrinterWhenExitingSleep :=
                  Some (nullish (turnOnPSUWhenExitingSleep psu) False)\<rparr>,
             plugins := (plugins config)
               \<lparr>psuControl := Some (psu\<lparr>turnOnPSUWhenExitingSleep := None\<rparr>)\<rparr>\<rparr>))"

text \<open>The object literal, its properties in the order they are written.\<close>

definition updateError :: "(string \<times> patch) list" where
  "updateError =
     [(zBabystepGCodeError, patchZBabystepGCode),
      (tpLinkSmartPlugError, patchTpLinkSmartPlug),
      (previewProgressCircleError, patchPreviewProgressCircle),
      (turnOnPrinterWhenExitingSleepError, patchTurnOnPrinterWhenExitingSleep)]"

text \<open>
  \<^verbatim>\<open>_.keys(object)\<close> lists the object's own property names, and \<open>getProperty\<close> is
  the read \<^verbatim>\<open>object[key]\<close>. \<^verbatim>\<open>_.hasIn(object, path)\<close> looks \<open>path\<close> up among the
  properties of the object, as one name or, failing that, as a dotted path. The
  identifiers are the validator's messages: a data path that begins with a dot, a blank
  and the message text. lodash finds such a string in the registry only when it is one
  of the four own names, and that is the test \<open>hasIn\<close> makes. A string that names a
  property which the object literal inherits (\<^verbatim>\<open>toString\<close>, say) is no validator
  message and lies outside this model.
\<close>

definition keys :: "(string \<times> 'a) list \<Rightarrow> string list" where
  "keys object = map fst object"

definition getProperty :: "(string \<times> 'a) list \<Rightarrow> string \<Rightarrow> 'a option" where
  "getProperty object key = map_of object key"

definition hasIn :: "(string \<times> 'a) list \<Rightarrow> string \<Rightarrow> bool" where
  "hasIn object path = (path \<in> set (keys object))"

section \<open>The configuration store\<close>

text \<open>
  Modelled from the spec: \<^verbatim>\<open>config/config.service.ts\<close> is not among the sources. The
  spec says that the store supplies \<^verbatim>\<open>getCurrentConfig()\<close> and accepts
  \<^verbatim>\<open>saveConfig(config)\<close>. The store is seen through these two calls: the Config it
  hands out, how often it was asked for it, and the Configs it was given to save, in the
  order of the calls.
\<close>

record configService =
  currentConfig :: config
  getCurrentConfigCalls :: nat
  savedConfigs :: "config list"

definition getCurrentConfig :: "configService \<Rightarrow> config \<times> configService" where
  "getCurrentConfig store =
     (currentConfig store, store\<lparr>getCurrentConfigCalls := Suc (getCurrentConfigCalls store)\<rparr>)"

definition saveConfig :: "config \<Rightarrow> configService \<Rightarrow> configService" where
  "saveConfig config store = store\<lparr>savedConfigs := savedConfigs store @ [config]\<rparr>"

section \<open>\<^verbatim>\<open>fixUpdateErrors\<close> and \<^verbatim>\<open>hasUpdateError\<close>\<close>

text \<open>
  The loop of lines 50 to 56, over the Config and the flag \<^verbatim>\<open>fullyAutofixed\<close>. A call
  of a property that is not a function raises a \<^verbatim>\<open>TypeError\<close>; an exception leaves
  the loop and the method.
\<close>

fun fixLoop :: "string list \<Rightarrow> config \<Rightarrow> bool \<Rightarrow> error + config \<times> bool" where
  "fixLoop [] config fullyAutofixed = Inr (config, fullyAutofixed)"
| "fixLoop (error # errors) config fullyAutofixed =
     (if hasIn updateError error then
        (case getProperty updateError error of
           None \<Rightarrow> Inl TypeError
         | Some patch \<Rightarrow>
             (case patch config of
                Inl e \<Rightarrow> Inl e
              | Inr config' \<Rightarrow> fixLoop errors config' fullyAutofixed))
      else fixLoop errors config False)"

text \<open>
  Lines 46 to 59. The result is the exception or the returned boolean, and the store
  after the call.
\<close>

definition fixUpdateErrors ::
    "string list \<Rightarrow> configService \<Rightarrow> (error + bool) \<times> configService" where
  "fixUpdateErrors errors store =
     (case getCurrentConfig store of
        (config, store') \<Rightarrow>
          (case fixLoop errors config True of
             Inl e \<Rightarrow> (Inl e, store')
           | Inr (config', fullyAutofixed) \<Rightarrow>
               (Inr fullyAutofixed, saveConfig config' store')))"

text \<open>
  \<^verbatim>\<open>_.intersection(array, other)\<close>: the values of \<open>array\<close> that are in \<open>other\<close>, each
  once, in the order of \<open>array\<close>.
\<close>

fun baseIntersection :: "'a list \<Rightarrow> 'a list \<Rightarrow> 'a list \<Rightarrow> 'a list" where
  "baseIntersection [] other result = result"
| "baseIntersection (value # array) other result =
     baseIntersection array other
       (if value \<in> set other \<and> value \<notin> set result then result @ [value] else result)"

definition intersection :: "'a list \<Rightarrow> 'a list \<Rightarrow> 'a list" where
  "intersection array other = baseIntersection array other []"

text \<open>Lines 110 to 112.\<close>

definition hasUpdateError :: "string list \<Rightarrow> bool" where
  "hasUpdateError errors = (length (intersection errors (keys updateError)) > 0)"

section \<open>The update check\<close>

text \<open>
  \<^verbatim>\<open>string.replace(pattern, replacement)\<close> with a string pattern: the first occurrence
  of the pattern is replaced, wherever it stands; a string without the pattern is
  returned as it is. (The replacement is taken literally; the source only passes the
  empty string.)
\<close>

fun replace :: "string \<Rightarrow> string \<Rightarrow> string \<Rightarrow> string" where
  "replace [] pattern replacement = (if pattern = [] then replacement else [])"
| "replace (c # s) pattern replacement =
     (if take (length pattern) (c # s) = pattern
      then replacement @ drop (length pattern) (c # s)
      else c # replace s pattern replacement)"

text \<open>The interface \<^verbatim>\<open>GitHubReleaseInformation\<close> (lines 163 to 168).\<close>

record gitHubReleaseInformation =
  name :: string
  assets_url :: string

text \<open>
  The fields of \<^verbatim>\<open>AppService\<close> (lines 15 to 19; a field without initialiser is
  \<^verbatim>\<open>undefined\<close>, here \<open>None\<close>), followed by what the service does to its collaborators:
  the configuration store, the channels it sent on through \<^verbatim>\<open>ipcRenderer.send\<close>, the
  calls of \<^verbatim>\<open>notificationService.setError\<close>, the style sheets appended to the document,
  the number of HTTP requests that have been issued and not answered, the times at which
  the callbacks armed by \<^verbatim>\<open>setTimeout\<close> are due (every one of them is \<^verbatim>\<open>checkUpdate\<close>),
  and the clock, in milliseconds.
\<close>

record appService =
  loadedFile :: bool
  version :: "string option"
  latestVersion :: "string option"
  latestVersionAssetsURL :: "string option"
  updateAvailable :: bool
  configStore :: configService
  ipcSent :: "string list"
  notifications :: "(string \<times> string) list"
  styleSheets :: "string list"
  pendingRequests :: nat
  timers :: "nat list"
  clock :: nat

text \<open>The service after its constructor (lines 21 to 43), at time \<open>now\<close>.\<close>

definition newAppService :: "configService \<Rightarrow> nat \<Rightarrow> appService" where
  "newAppService store now =
     \<lparr>loadedFile = False, version = None, latestVersion = None,
      latestVersionAssetsURL = None, updateAvailable = False,
      configStore = store, ipcSent = [''appInfo''], notifications = [],
      styleSheets = [], pendingRequests = 0, timers = [], clock = now\<rparr>"

text \<open>
  \<^verbatim>\<open>checkUpdate\<close> (lines 80 to 92) issues the request, subscribes the two callbacks
  and arms the timer; the callbacks run later, when the request is answered.
\<close>

definition checkUpdate :: "appService \<Rightarrow> appService" where
  "checkUpdate s =
     s\<lparr>pendingRequests := Suc (pendingRequests s),
       timers := timers s @ [clock s + 3600000]\<rparr>"

text \<open>The callback for a response (lines 82 to 88).\<close>

definition onReleaseInformation :: "gitHubReleaseInformation \<Rightarrow> appService \<Rightarrow> appService" where
  "onReleaseInformation data s =
     (let s' = (if version s \<noteq> Some (replace (name data) ''v'' [])
                then s\<lparr>updateAvailable := True\<rparr> else s)
      in s'\<lparr>latestVersion := Some (replace (name data) ''v'' []),
             latestVersionAssetsURL := Some (assets_url data)\<rparr>)"

text \<open>The callback for a failed request (line 89): \<^verbatim>\<open>(): void => null\<close>.\<close>

definition onRequestError :: "appService \<Rightarrow> appService" where
  "onRequestError s = s"

text \<open>The listener for \<^verbatim>\<open>versionInformation\<close> (lines 62 to 65).\<close>

definition onVersionInformation :: "string \<Rightarrow> appService \<Rightarrow> appService" where
  "onVersionInformation v s = checkUpdate (s\<lparr>version := Some v\<rparr>)"

text \<open>The listeners for \<^verbatim>\<open>customStyles\<close> and \<^verbatim>\<open>customStylesError\<close> (lines 69 to 77).\<close>

definition onCustomStyles :: "string \<Rightarrow> appService \<Rightarrow> appService" where
  "onCustomStyles customCSS s = s\<lparr>styleSheets := styleSheets s @ [customCSS]\<rparr>"

definition onCustomStylesError :: "string \<Rightarrow> appService \<Rightarrow> appService" where
  "onCustomStylesError customCSSError s =
     s\<lparr>notifications := notifications s @ [(''Can't load custom styles!'', customCSSError)]\<rparr>"

text \<open>The methods that change the service or its collaborators.\<close>

definition setLoadedFile :: "bool \<Rightarrow> appService \<Rightarrow> appService" where
  "setLoadedFile v s = s\<lparr>loadedFile := v\<rparr>"

definition turnDisplayOff :: "appService \<Rightarrow> appService" where
  "turnDisplayOff s = s\<lparr>ipcSent := ipcSent s @ [''screenSleep'']\<rparr>"

definition turnDisplayOn :: "appService \<Rightarrow> appService" where
  "turnDisplayOn s = s\<lparr>ipcSent := ipcSent s @ [''screenWakeup'']\<rparr>"

text \<open>
  What can happen to the service during the life of the process: an event arrives on
  the channel, a request is answered (only when one is outstanding), time passes, the
  timer that was armed first comes due, or a method is called. The getters and the unit
  converters change nothing and are left out.
\<close>

datatype httpResult = Response gitHubReleaseInformation | RequestFailed

datatype event =
    VersionInformation string
  | CustomStyles string
  | CustomStylesError string
  | Http httpResult
  | Elapse nat
  | TimerFires
  | FixUpdateErrors "string list"
  | SetLoadedFile bool
  | TurnDisplayOff
  | TurnDisplayOn

definition subscribed :: "httpResult \<Rightarrow> appService \<Rightarrow> appService" where
  "subscribed r s =
     (case r of Response data \<Rightarrow> onReleaseInformation data s | RequestFailed \<Rightarrow> onRequestError s)"

fun step :: "event \<Rightarrow> appService \<Rightarrow> appService" where
  "step (VersionInformation v) s = onVersionInformation v s"
| "step (CustomStyles css) s = onCustomStyles css s"
| "step (CustomStylesError e) s = onCustomStylesError e s"
| "step (Http r) s =
     (if pendingRequests s = 0 then s
      else subscribed r (s\<lparr>pendingRequests := pendingRequests s - 1\<rparr>))"
| "step (Elapse d) s = s\<lparr>clock := clock s + d\<rparr>"
| "step TimerFires s =
     (case timers s of
        [] \<Rightarrow> s
      | due # rest \<Rightarrow> if due \<le> clock s then checkUpdate (s\<lparr>timers := rest\<rparr>) else s)"
| "step (FixUpdateErrors errors) s =
     s\<lparr>configStore := snd (fixUpdateErrors errors (configStore s))\<rparr>"
| "step (SetLoadedFile v) s = setLoadedFile v s"
| "step TurnDisplayOff s = turnDisplayOff s"
| "step TurnDisplayOn s = turnDisplayOn s"

fun run :: "appService \<Rightarrow> event list \<Rightarrow> appService" where
  "run s [] = s"
| "run s (e # es) = run (step e s) es"

section \<open>Applying a patch twice, and the data of the examples\<close>

text \<open>A patch applied to its own result; an exception of the first call ends both.\<close>

definition twice :: "patch \<Rightarrow> patch" where
  "twice p config = (case p config of Inl e \<Rightarrow> Inl e | Inr config' \<Rightarrow> p config')"

text \<open>A store that holds the empty Config and has not been called.\<close>

definition emptyStore :: configService where
  "emptyStore = \<lparr>currentConfig = emptyConfig, getCurrentConfigCalls = 0, savedConfigs = []\<rparr>"

text \<open>
  The empty Config with a \<^verbatim>\<open>psuControl\<close> plugin whose \<^verbatim>\<open>turnOnPSUWhenExitingSleep\<close> is
  \<open>b\<close>.
\<close>

definition psuConfig :: "bool \<Rightarrow> config" where
  "psuConfig b =
     emptyConfig\<lparr>plugins :=
       \<lparr>tpLinkSmartPlug = None,
        psuControl = Some \<lparr>turnOnPSUWhenExitingSleep = Some b\<rparr>\<rparr>\<rparr>"

text \<open>
  Version 1.2.0 is announced; the first poll finds release v1.3.0; an hour later the
  timer fires and the second poll finds release v1.2.0.
\<close>

definition twoPolls :: "event list" where
  "twoPolls =
     [VersionInformation ''1.2.0'',
      Http (Response \<lparr>name = ''v1.3.0'', assets_url = ''https://x''\<rparr>),
      Elapse 3600000,
      TimerFires,
      Http (Response \<lparr>name = ''v1.2.0'', assets_url = ''https://x''\<rparr>)]"

section \<open>The registry and \<^verbatim>\<open>fixUpdateErrors\<close>\<close>

lemma keys_updateError:
  "keys updateError =
     [zBabystepGCodeError, tpLinkSmartPlugError, previewProgressCircleError,
      turnOnPrinterWhenExitingSleepError]"
  by (simp add: keys_def updateError_def)

lemma keys_differ:
  "zBabystepGCodeError \<noteq> tpLinkSmartPlugError"
  "zBabystepGCodeError \<noteq> previewProgressCircleError"
  "zBabystepGCodeError \<noteq> turnOnPrinterWhenExitingSleepError"
  "tpLinkSmartPlugError \<noteq> previewProgressCircleError"
  "tpLinkSmartPlugError \<noteq> turnOnPrinterWhenExitingSleepError"
  "previewProgressCircleError \<noteq> turnOnPrinterWhenExitingSleepError"
  by (simp_all add: zBabystepGCodeError_def tpLinkSmartPlugError_def
      previewProgressCircleError_def turnOnPrinterWhenExitingSleepError_def)

lemma getProperty_updateError:
  "getProperty updateError zBabystepGCodeError = Some patchZBabystepGCode"
  "getProperty updateError tpLinkSmartPlugError = Some patchTpLinkSmartPlug"
  "getProperty updateError previewProgressCircleError = Some patchPreviewProgressCircle"
  "getProperty updateError turnOnPrinterWhenExitingSleepError =
     Some patchTurnOnPrinterWhenExitingSleep"
  by (simp_all add: getProperty_def updateError_def keys_differ keys_differ [symmetric])

lemma hasIn_updateError:
  "hasIn updateError e =
     (e = zBabystepGCodeError \<or> e = tpLinkSmartPlugError \<or> e = previewProgressCircleError \<or>
      e = turnOnPrinterWhenExitingSleepError)"
  by (simp add: hasIn_def keys_updateError)

lemma hasIn_getProperty: "hasIn updateError e \<Longrightarrow> \<exists>p. getProperty updateError e = Some p"
  by (auto simp add: hasIn_updateError getProperty_updateError)

text \<open>
  On a Config that has \<^verbatim>\<open>plugins.psuControl\<close> no patch raises, and the plugin is still
  there afterwards.
\<close>

lemma patch_keeps_psuControl:
  assumes "psuControl (plugins c) \<noteq> None" and "getProperty updateError e = Some p"
    and "hasIn updateError e"
  shows "\<exists>c'. p c = Inr c' \<and> psuControl (plugins c') \<noteq> None"
  using assms
  by (auto simp add: hasIn_updateError getProperty_updateError patchZBabystepGCode_def
      patchTpLinkSmartPlug_def patchPreviewProgressCircle_def
      patchTurnOnPrinterWhenExitingSleep_def)

lemma fixLoop_returns:
  "psuControl (plugins c) \<noteq> None \<Longrightarrow>
   \<exists>c'. fixLoop es c b = Inr (c', b \<and> list_all (hasIn updateError) es)"
proof (induction es arbitrary: c b)
  case Nil
  then show ?case by simp
next
  case (Cons e es)
  show ?case
  proof (cases "hasIn updateError e")
    case True
    then obtain p where p: "getProperty updateError e = Some p"
      using hasIn_getProperty by blast
    from patch_keeps_psuControl [OF Cons.prems p True]
    obtain c' where c': "p c = Inr c'" "psuControl (plugins c') \<noteq> None" by blast
    from Cons.IH [OF c'(2), of b] obtain c'' where
      "fixLoop es c' b = Inr (c'', b \<and> list_all (hasIn updateError) es)" by blast
    with True p c' show ?thesis by simp
  next
    case False
    from Cons.IH [OF Cons.prems, of False] obtain c'' where
      "fixLoop es c False = Inr (c'', False)" by auto
    with False show ?thesis by simp
  qed
qed

text \<open>
  So on a store whose Config has \<^verbatim>\<open>plugins.psuControl\<close>, \<^verbatim>\<open>fixUpdateErrors\<close> asks for
  the Config once, saves once, and returns whether every identifier is registered.
\<close>

lemma fixUpdateErrors_returns:
  assumes "psuControl (plugins (currentConfig store)) \<noteq> None"
  shows "\<exists>c'. fixUpdateErrors errors store =
           (Inr (list_all (hasIn updateError) errors),
            store\<lparr>getCurrentConfigCalls := Suc (getCurrentConfigCalls store),
                  savedConfigs := savedConfigs store @ [c']\<rparr>)"
proof -
  from fixLoop_returns [OF assms, of errors True] obtain c' where
    "fixLoop errors (currentConfig store) True = Inr (c', list_all (hasIn updateError) errors)"
    by auto
  then show ?thesis
    by (auto simp add: fixUpdateErrors_def getCurrentConfig_def saveConfig_def)
qed

text \<open>
  Claim C1: for every batch, \<^verbatim>\<open>fixUpdateErrors\<close> obtains the Config once, applies the
  registered patches in input order, saves exactly once after the whole batch and
  returns true if and only if every identifier was registered. The code does not do so
  on every Config: for the batch that holds the registered identifier
  \<^verbatim>\<open>.octodash should have required property 'turnOnPrinterWhenExitingSleep'\<close> and a
  Config that has no \<^verbatim>\<open>plugins.psuControl\<close>, the patch of line 39 raises a
  \<^verbatim>\<open>TypeError\<close>; the method is left before \<^verbatim>\<open>saveConfig\<close>, nothing is saved and no
  boolean is returned.
\<close>

theorem fixUpdateErrors_raises_without_psuControl:
  "fixUpdateErrors [turnOnPrinterWhenExitingSleepError] emptyStore =
     (Inl TypeError, emptyStore\<lparr>getCurrentConfigCalls := 1\<rparr>)"
  by (simp add: fixUpdateErrors_def getCurrentConfig_def emptyStore_def hasIn_updateError
      getProperty_updateError patchTurnOnPrinterWhenExitingSleep_def emptyConfig_def)

text \<open>
  Claim C9: on the batch of the identifiers for \<^verbatim>\<open>previewProgressCircle\<close> and
  \<^verbatim>\<open>tpLinkSmartPlug\<close> and the empty Config, \<^verbatim>\<open>fixUpdateErrors\<close> returns true and saves,
  once, the Config in which \<^verbatim>\<open>octodash.previewProgressCircle\<close> is false and
  \<^verbatim>\<open>plugins.tpLinkSmartPlug\<close> is \<^verbatim>\<open>{enabled: true, smartPlugIP: "127.0.0.1"}\<close>, nothing
  else being set; on any other Config the same two properties are set and true is
  returned; and the patch for \<^verbatim>\<open>zBabystepGCode\<close> sets \<^verbatim>\<open>printer.zBabystepGCode\<close> to
  \<^verbatim>\<open>"M290 Z"\<close>.
\<close>

theorem fixUpdateErrors_example:
  "fixUpdateErrors [previewProgressCircleError, tpLinkSmartPlugError] emptyStore =
     (Inr True,
      emptyStore
        \<lparr>getCurrentConfigCalls := 1,
         savedConfigs :=
           [\<lparr>printer = \<lparr>zBabystepGCode = None\<rparr>,
             plugins =
               \<lparr>tpLinkSmartPlug = Some \<lparr>enabled = True, smartPlugIP = ''127.0.0.1''\<rparr>,
                psuControl = None\<rparr>,
             octodash =
               \<lparr>previewProgressCircle = Some False,
                turnOnPrinterWhenExitingSleep = None\<rparr>\<rparr>]\<rparr>)
   \<and> (\<exists>config'.
         fixUpdateErrors [previewProgressCircleError, tpLinkSmartPlugError] store =
           (Inr True,
            store\<lparr>getCurrentConfigCalls := Suc (getCurrentConfigCalls store),
                  savedConfigs := savedConfigs store @ [config']\<rparr>)
         \<and> previewProgressCircle (octodash config') = Some False
         \<and> tpLinkSmartPlug (plugins config') =
             Some \<lparr>enabled = True, smartPlugIP = ''127.0.0.1''\<rparr>)
   \<and> (\<exists>config'. patchZBabystepGCode config = Inr config'
         \<and> zBabystepGCode (printer config') = Some ''M290 Z'')"
proof -
  let ?batch = "[previewProgressCircleError, tpLinkSmartPlugError]"
  let ?fixed =
    "\<lambda>c. c\<lparr>octodash := (octodash c)\<lparr>previewProgressCircle := Some False\<rparr>,
           plugins := (plugins c)
             \<lparr>tpLinkSmartPlug := Some \<lparr>enabled = True, smartPlugIP = ''127.0.0.1''\<rparr>\<rparr>\<rparr>"
  have any: "fixUpdateErrors ?batch st =
      (Inr True,
       st\<lparr>getCurrentConfigCalls := Suc (getCurrentConfigCalls st),
          savedConfigs := savedConfigs st @ [?fixed (currentConfig st)]\<rparr>)" for st
    by (simp add: fixUpdateErrors_def getCurrentConfig_def saveConfig_def hasIn_updateError
        getProperty_updateError patchPreviewProgressCircle_def patchTpLinkSmartPlug_def)
  have empty: "fixUpdateErrors ?batch emptyStore =
     (Inr True,
      emptyStore
        \<lparr>getCurrentConfigCalls := 1,
         savedConfigs :=
           [\<lparr>printer = \<lparr>zBabystepGCode = None\<rparr>,
             plugins =
               \<lparr>tpLinkSmartPlug = Some \<lparr>enabled = True, smartPlugIP = ''127.0.0.1''\<rparr>,
                psuControl = None\<rparr>,
             octodash =
               \<lparr>previewProgressCircle = Some False,
                turnOnPrinterWhenExitingSleep = None\<rparr>\<rparr>]\<rparr>)"
    by (simp add: any) (simp add: emptyStore_def emptyConfig_def)
  have general: "\<exists>config'.
         fixUpdateErrors ?batch store =
           (Inr True,
            store\<lparr>getCurrentConfigCalls := Suc (getCurrentConfigCalls store),
                  savedConfigs := savedConfigs store @ [config']\<rparr>)
         \<and> previewProgressCircle (octodash config') = Some False
         \<and> tpLinkSmartPlug (plugins config') =
             Some \<lparr>enabled = True, smartPlugIP = ''127.0.0.1''\<rparr>"
    by (rule exI [of _ "?fixed (currentConfig store)"]) (simp add: any)
  have babystep: "\<exists>config'. patchZBabystepGCode config = Inr config'
         \<and> zBabystepGCode (printer config') = Some ''M290 Z''"
    by (simp add: patchZBabystepGCode_def)
  from empty general babystep show ?thesis by blast
qed

section \<open>\<^verbatim>\<open>hasUpdateError\<close>\<close>

lemma set_baseIntersection:
  "set (baseIntersection array other result) = set result \<union> (set array \<inter> set other)"
  by (induction array other result rule: baseIntersection.induct) auto

lemma set_intersection: "set (intersection array other) = set array \<inter> set other"
  by (simp add: intersection_def set_baseIntersection)

text \<open>
  Claim C7: \<^verbatim>\<open>hasUpdateError\<close> returns true if and only if some element of the sequence
  is a key of the registry; it returns false on \<^verbatim>\<open>["unknown.only"]\<close> and true on
  \<^verbatim>\<open>["unknown.only", ".printer should have required property 'zBabystepGCode'"]\<close>.
\<close>

theorem hasUpdateError_iff:
  "hasUpdateError errors = (set errors \<inter> set (keys updateError) \<noteq> {})
   \<and> hasUpdateError [''unknown.only''] = False
   \<and> hasUpdateError [''unknown.only'', zBabystepGCodeError] = True"
proof -
  have general: "hasUpdateError es = (set es \<inter> set (keys updateError) \<noteq> {})" for es
  proof -
    have "hasUpdateError es = (intersection es (keys updateError) \<noteq> [])"
      by (simp add: hasUpdateError_def)
    also have "\<dots> = (set (intersection es (keys updateError)) \<noteq> {})"
      by simp
    finally show ?thesis
      by (simp only: set_intersection)
  qed
  have unknown: "''unknown.only'' \<notin> set (keys updateError)"
    by (simp add: keys_updateError zBabystepGCodeError_def tpLinkSmartPlugError_def
        previewProgressCircleError_def turnOnPrinterWhenExitingSleepError_def)
  have "hasUpdateError [''unknown.only''] = False"
    using unknown by (simp add: general)
  moreover have "hasUpdateError [''unknown.only'', zBabystepGCodeError] = True"
    by (simp add: general keys_updateError)
  ultimately show ?thesis
    using general by blast
qed

section \<open>Applying a patch twice\<close>

text \<open>
  Claim C2, amended: each of the three patches that set a constant gives, applied
  twice, the Config it gives applied once. The patch for
  \<^verbatim>\<open>turnOnPrinterWhenExitingSleep\<close> copies
  \<^verbatim>\<open>plugins.psuControl.turnOnPSUWhenExitingSleep\<close> (false when unset) and deletes it, so
  a second application finds it unset and writes false: on a Config that has
  \<^verbatim>\<open>plugins.psuControl\<close>, applying the patch twice gives the same as applying it once
  exactly when \<^verbatim>\<open>turnOnPSUWhenExitingSleep\<close> was not true.
\<close>

theorem patches_twice:
  "twice patchZBabystepGCode config = patchZBabystepGCode config
   \<and> twice patchTpLinkSmartPlug config = patchTpLinkSmartPlug config
   \<and> twice patchPreviewProgressCircle config = patchPreviewProgressCircle config
   \<and> (psuControl (plugins config) = Some psu \<longrightarrow>
        (twice patchTurnOnPrinterWhenExitingSleep config =
           patchTurnOnPrinterWhenExitingSleep config) =
        (turnOnPSUWhenExitingSleep psu \<noteq> Some True))"
proof -
  have "twice patchZBabystepGCode config = patchZBabystepGCode config"
    by (simp add: twice_def patchZBabystepGCode_def)
  moreover have "twice patchTpLinkSmartPlug config = patchTpLinkSmartPlug config"
    by (simp add: twice_def patchTpLinkSmartPlug_def)
  moreover have "twice patchPreviewProgressCircle config = patchPreviewProgressCircle config"
    by (simp add: twice_def patchPreviewProgressCircle_def)
  moreover have "(twice patchTurnOnPrinterWhenExitingSleep config =
           patchTurnOnPrinterWhenExitingSleep config) =
        (turnOnPSUWhenExitingSleep psu \<noteq> Some True)"
    if psu: "psuControl (plugins config) = Some psu"
  proof (cases "turnOnPSUWhenExitingSleep psu")
    case None
    with psu show ?thesis
      by (simp add: twice_def patchTurnOnPrinterWhenExitingSleep_def nullish_def)
  next
    case (Some b)
    with psu show ?thesis
      by (cases b; cases config; cases "octodash config";
          simp add: twice_def patchTurnOnPrinterWhenExitingSleep_def nullish_def)
  qed
  ultimately show ?thesis by blast
qed

text \<open>
  The theorem at a Config whose \<^verbatim>\<open>turnOnPSUWhenExitingSleep\<close> is false: the second
  application changes nothing.
\<close>

theorem patches_twice_witness:
  "psuControl (plugins (psuConfig False)) = Some \<lparr>turnOnPSUWhenExitingSleep = Some False\<rparr>
   \<and> twice patchTurnOnPrinterWhenExitingSleep (psuConfig False) =
       patchTurnOnPrinterWhenExitingSleep (psuConfig False)"
proof -
  have psu: "psuControl (plugins (psuConfig False)) =
      Some \<lparr>turnOnPSUWhenExitingSleep = Some False\<rparr>"
    by (simp add: psuConfig_def)
  show ?thesis
    using psu patches_twice [of "psuConfig False" "\<lparr>turnOnPSUWhenExitingSleep = Some False\<rparr>"]
    by simp
qed

text \<open>
  Claim C2 as stated fails: on a Config whose \<^verbatim>\<open>turnOnPSUWhenExitingSleep\<close> is true,
  one application sets \<^verbatim>\<open>octodash.turnOnPrinterWhenExitingSleep\<close> to true and a second
  one sets it back to false.
\<close>

theorem patchTurnOnPrinterWhenExitingSleep_twice_differs:
  "turnOnPrinterWhenExitingSleep
     (octodash (projr (patchTurnOnPrinterWhenExitingSleep (psuConfig True)))) = Some True
   \<and> turnOnPrinterWhenExitingSleep
     (octodash (projr (twice patchTurnOnPrinterWhenExitingSleep (psuConfig True)))) = Some False
   \<and> twice patchTurnOnPrinterWhenExitingSleep (psuConfig True) \<noteq>
       patchTurnOnPrinterWhenExitingSleep (psuConfig True)"
  by (simp add: twice_def patchTurnOnPrinterWhenExitingSleep_def nullish_def psuConfig_def
      emptyConfig_def)

section \<open>The update check\<close>

lemma replace_leading_v: "replace (CHR ''v'' # x) ''v'' [] = x"
  by simp

lemma replace_without_v: "CHR ''v'' \<notin> set x \<Longrightarrow> replace x ''v'' [] = x"
  by (induction x) auto

text \<open>
  What the callback for a response stores: the release name after \<^verbatim>\<open>replace('v', '')\<close>
  and the asset URL, whatever the current version is.
\<close>

lemma onReleaseInformation_stores:
  "latestVersion (onReleaseInformation data s) = Some (replace (name data) ''v'' [])
   \<and> latestVersionAssetsURL (onReleaseInformation data s) = Some (assets_url data)"
  by (simp add: onReleaseInformation_def Let_def)

lemma updateAvailable_step:
  "updateAvailable (step e s) =
     (updateAvailable s \<or>
      (case e of
         Http (Response data) \<Rightarrow>
           0 < pendingRequests s \<and> version s \<noteq> Some (replace (name data) ''v'' [])
       | _ \<Rightarrow> False))"
  by (cases e)
    (auto simp add: onVersionInformation_def checkUpdate_def onCustomStyles_def
      onCustomStylesError_def subscribed_def onRequestError_def onReleaseInformation_def
      Let_def setLoadedFile_def turnDisplayOff_def turnDisplayOn_def
      split: httpResult.splits list.splits)

lemma updateAvailable_run: "updateAvailable s \<Longrightarrow> updateAvailable (run s es)"
  by (induction es arbitrary: s) (simp_all add: updateAvailable_step)

text \<open>
  Claim C3, amended: after a successful poll \<^verbatim>\<open>updateAvailable\<close> is true if it was true
  before the poll or if the stored \<^verbatim>\<open>latestVersion\<close> differs from the current version;
  when the two are equal the poll leaves \<^verbatim>\<open>updateAvailable\<close> as it was, so it is false
  after the poll only if it was false before. This holds for the callback in any state,
  and for a poll (\<^verbatim>\<open>checkUpdate\<close> and its response) from any state.
\<close>

theorem successful_poll_updateAvailable:
  "updateAvailable (onReleaseInformation data s) =
     (updateAvailable s \<or> latestVersion (onReleaseInformation data s) \<noteq> version s)
   \<and> updateAvailable (step (Http (Response data)) (checkUpdate s)) =
     (updateAvailable s \<or>
      latestVersion (step (Http (Response data)) (checkUpdate s)) \<noteq> version s)"
  by (simp add: checkUpdate_def subscribed_def onReleaseInformation_def Let_def eq_commute)

text \<open>
  Claim C3 as stated fails: version 1.2.0 is running, a first poll finds v1.3.0 and a
  later poll finds v1.2.0. After the second poll the stored \<^verbatim>\<open>latestVersion\<close> equals
  the current version, and \<^verbatim>\<open>updateAvailable\<close> is still true.
\<close>

theorem updateAvailable_not_reset:
  "version (run (newAppService emptyStore 0) twoPolls) = Some ''1.2.0''
   \<and> latestVersion (run (newAppService emptyStore 0) twoPolls) = Some ''1.2.0''
   \<and> updateAvailable (run (newAppService emptyStore 0) twoPolls) = True"
  by (simp add: twoPolls_def newAppService_def onVersionInformation_def checkUpdate_def
      subscribed_def onReleaseInformation_def Let_def)

text \<open>
  Claim C4: the callback for a failed request changes nothing; after a poll that fails,
  \<^verbatim>\<open>updateAvailable\<close>, \<^verbatim>\<open>latestVersion\<close> and \<^verbatim>\<open>latestVersionAssetsURL\<close> are what they
  were before the poll, no error has been handed to the notification service, and the
  timer for the next \<^verbatim>\<open>checkUpdate\<close> is armed.
\<close>

theorem failed_poll_changes_nothing:
  "onRequestError s = s
   \<and> updateAvailable (step (Http RequestFailed) (checkUpdate s)) = updateAvailable s
   \<and> latestVersion (step (Http RequestFailed) (checkUpdate s)) = latestVersion s
   \<and> latestVersionAssetsURL (step (Http RequestFailed) (checkUpdate s)) =
       latestVersionAssetsURL s
   \<and> notifications (step (Http RequestFailed) (checkUpdate s)) = notifications s
   \<and> timers (step (Http RequestFailed) (checkUpdate s)) = timers s @ [clock s + 3600000]"
  by (simp add: checkUpdate_def subscribed_def onRequestError_def)

text \<open>
  Claim C5: the stored \<^verbatim>\<open>latestVersion\<close> is the release name without a leading "v",
  and a "v" elsewhere in the name is kept. The code does not keep it: \<^verbatim>\<open>replace('v', '')\<close>
  removes the first "v" wherever it stands, so the release name \<^verbatim>\<open>1.0.0-dev\<close>, which has
  no leading "v", is stored as \<^verbatim>\<open>1.0.0-de\<close>.
\<close>

theorem latestVersion_loses_inner_v:
  "latestVersion (onReleaseInformation \<lparr>name = ''1.0.0-dev'', assets_url = u\<rparr> s) =
     Some ''1.0.0-de''"
  by (simp add: onReleaseInformation_def Let_def)

text \<open>
  Claim C6, amended: only the release name is stripped; the current version is compared
  as the version event announced it. For every string \<open>x\<close>, when the current version is
  \<open>x\<close> and the polled release is named "v" followed by \<open>x\<close>, the two compare equal and
  the poll leaves \<^verbatim>\<open>updateAvailable\<close> as it was (false, after construction); the same
  holds for a release named \<open>x\<close> when \<open>x\<close> contains no "v". When the current version is
  itself "v" followed by \<open>x\<close>, the release named "v" followed by \<open>x\<close> compares as
  different and the poll sets \<^verbatim>\<open>updateAvailable\<close> to true.
\<close>

theorem only_release_name_is_stripped:
  "updateAvailable
     (run s [VersionInformation x, Http (Response \<lparr>name = CHR ''v'' # x, assets_url = u\<rparr>)]) =
     updateAvailable s
   \<and> (CHR ''v'' \<notin> set x \<longrightarrow>
       updateAvailable
         (run s [VersionInformation x, Http (Response \<lparr>name = x, assets_url = u\<rparr>)]) =
         updateAvailable s)
   \<and> updateAvailable
     (run s [VersionInformation (CHR ''v'' # x),
             Http (Response \<lparr>name = CHR ''v'' # x, assets_url = u\<rparr>)]) = True"
  by (simp add: onVersionInformation_def checkUpdate_def subscribed_def
      onReleaseInformation_def Let_def replace_without_v)

text \<open>
  The theorem for the current version 1.2.0, from the state after construction: neither
  the release v1.2.0 nor the release 1.2.0 makes an update available.
\<close>

theorem only_release_name_is_stripped_witness:
  "CHR ''v'' \<notin> set ''1.2.0''
   \<and> updateAvailable
     (run (newAppService emptyStore 0)
        [VersionInformation ''1.2.0'',
         Http (Response \<lparr>name = ''v1.2.0'', assets_url = ''https://x''\<rparr>)]) = False
   \<and> updateAvailable
     (run (newAppService emptyStore 0)
        [VersionInformation ''1.2.0'',
         Http (Response \<lparr>name = ''1.2.0'', assets_url = ''https://x''\<rparr>)]) = False"
  using only_release_name_is_stripped [of "newAppService emptyStore 0" "''1.2.0''" "''https://x''"]
  by (simp add: newAppService_def)

text \<open>
  Claim C6 as stated fails: the version event announces v1.2.0 and the poll finds the
  release v1.2.0; the current version keeps its "v", the comparison fails and an update
  is reported.
\<close>

theorem current_version_keeps_its_v:
  "updateAvailable
     (run (newAppService emptyStore 0)
        [VersionInformation ''v1.2.0'',
         Http (Response \<lparr>name = ''v1.2.0'', assets_url = ''https://x''\<rparr>)]) = True"
  by (simp add: newAppService_def onVersionInformation_def checkUpdate_def subscribed_def
      onReleaseInformation_def Let_def)

text \<open>
  Claim C8: every invocation of \<^verbatim>\<open>checkUpdate\<close> arms exactly one timer, due 3600000 ms
  after the clock at the invocation; neither callback arms or clears a timer, so after
  the response, success or failure, that one timer is what the poll has added.
\<close>

theorem checkUpdate_arms_one_timer:
  "timers (checkUpdate s) = timers s @ [clock s + 3600000]
   \<and> timers (subscribed r s) = timers s
   \<and> timers (step (Http r) (checkUpdate s)) = timers s @ [clock s + 3600000]"
  by (cases r) (simp_all add: checkUpdate_def subscribed_def onRequestError_def
      onReleaseInformation_def Let_def)

text \<open>
  Claim C10: \<^verbatim>\<open>updateAvailable\<close> is false after construction; once it is true it stays
  true through every sequence of events and method calls; and a single step makes it
  true exactly when it answers an outstanding request with a release whose name, after
  \<^verbatim>\<open>replace('v', '')\<close>, differs from the current version.
\<close>

theorem updateAvailable_monotone:
  "updateAvailable (newAppService store now) = False
   \<and> (updateAvailable s \<longrightarrow> updateAvailable (run s es))
   \<and> updateAvailable (step e s) =
       (updateAvailable s \<or>
        (case e of
           Http (Response data) \<Rightarrow>
             0 < pendingRequests s \<and> version s \<noteq> Some (replace (name data) ''v'' [])
         | _ \<Rightarrow> False))"
  using updateAvailable_run [of s es] updateAvailable_step [of e s]
  by (simp add: newAppService_def)

text \<open>
  The theorem from the state in which the first poll has found v1.3.0: the second poll,
  which finds the running version, and two method calls leave \<^verbatim>\<open>updateAvailable\<close> true.
\<close>

theorem updateAvailable_monotone_witness:
  "updateAvailable
     (run (newAppService emptyStore 0)
        [VersionInformation ''1.2.0'',
         Http (Response \<lparr>name = ''v1.3.0'', assets_url = ''https://x''\<rparr>)])
   \<and> updateAvailable
     (run
        (run (newAppService emptyStore 0)
           [VersionInformation ''1.2.0'',
            Http (Response \<lparr>name = ''v1.3.0'', assets_url = ''https://x''\<rparr>)])
        [Elapse 3600000, TimerFires,
         Http (Response \<lparr>name = ''v1.2.0'', assets_url = ''https://x''\<rparr>),
         SetLoadedFile True, TurnDisplayOff])"
proof -
  let ?s = "run (newAppService emptyStore 0)
           [VersionInformation ''1.2.0'',
            Http (Response \<lparr>name = ''v1.3.0'', assets_url = ''https://x''\<rparr>)]"
  have before: "updateAvailable ?s"
    by (simp add: newAppService_def onVersionInformation_def checkUpdate_def subscribed_def
        onReleaseInformation_def Let_def)
  show ?thesis
    using before
      updateAvailable_monotone [of emptyStore 0 ?s
        "[Elapse 3600000, TimerFires,
          Http (Response \<lparr>name = ''v1.2.0'', assets_url = ''https://x''\<rparr>),
          SetLoadedFile True, TurnDisplayOff]" TurnDisplayOff]
    by blast
qed

end
